theory Spec2Isabelle
  imports Complex_Main "HOL-Library.AList" "HOL-Library.Word"
begin

section \<open>Shared vocabulary\<close>

text \<open>
  Python \<open>bytes\<close> are lists of 8-bit characters, so a packet is a \<open>string\<close> and the
  literal \<open>b"REGISTER|"\<close> is \<open>''REGISTER|''\<close>. A UDP source address is the pair
  (host, port) that \<open>recvfrom\<close> returns. \<open>time.time()\<close> is a number of seconds; the
  servers only subtract and compare such values, so it is a \<open>real\<close> here.

  A Python \<open>dict\<close> keeps its keys in insertion order, and the order decides in which
  order a broadcast loop sends. A dict is therefore an association list:
  \<open>d[k] = v\<close> is \<open>AList.update k v d\<close> (the value is replaced in place, a new key goes to
  the end), \<open>d.pop(k, None)\<close> and \<open>del d[k]\<close> are \<open>AList.delete k d\<close>, \<open>d.get(k)\<close> is
  \<open>map_of d k\<close>, \<open>list(d.keys())\<close> is \<open>map fst d\<close>.
\<close>

type_synonym bytes = string
type_synonym address = "string \<times> nat"
type_synonym time = real

definition has_key :: "('k \<times> 'v) list \<Rightarrow> 'k \<Rightarrow> bool" where
  "has_key d k = (k \<in> set (map fst d))"

definition startswith :: "bytes \<Rightarrow> bytes \<Rightarrow> bool" where
  "startswith d p = (take (length p) d = p)"

definition setdefault :: "'k \<Rightarrow> 'v \<Rightarrow> ('k \<times> 'v) list \<Rightarrow> ('k \<times> 'v) list" where
  "setdefault k v d = (if has_key d k then d else d @ [(k, v)])"

definition pop_all :: "'k list \<Rightarrow> ('k \<times> 'v) list \<Rightarrow> ('k \<times> 'v) list" where
  "pop_all ks d = fold AList.delete ks d"

definition REGISTER_PREFIX :: bytes where
  "REGISTER_PREFIX = ''REGISTER|''"

section \<open>VideoServer (server\_modules/video\_module.py)\<close>

record video_server =
  v_clients :: "(address \<times> string) list"
  v_last_seen :: "(address \<times> time) list"

text \<open>
  One turn of the loop of \<open>_receive_and_broadcast\<close> for a datagram \<open>data\<close> received from
  \<open>address\<close> at time \<open>now\<close>. \<open>decode\<close> is \<open>bytes.decode('utf-8', errors='ignore')\<close>;
  \<open>fails a\<close> says that \<open>sendto(_, a)\<close> raises. The result is the new server and the
  \<open>sendto\<close> calls made, in order.
\<close>

definition video_receive_and_broadcast ::
  "(bytes \<Rightarrow> string) \<Rightarrow> (address \<Rightarrow> bool) \<Rightarrow> time \<Rightarrow> bytes \<Rightarrow> address \<Rightarrow> video_server
    \<Rightarrow> video_server \<times> (address \<times> bytes) list" where
  "video_receive_and_broadcast decode fails now data address s =
    (if data = [] then (s, [])
     else if startswith data REGISTER_PREFIX then
       (let username = decode (drop (length REGISTER_PREFIX) data);
            previous = map_of (v_clients s) address;
            echo = (if previous \<noteq> Some username then [] else [(address, data)])
        in (s\<lparr>v_clients := AList.update address username (v_clients s),
               v_last_seen := AList.update address now (v_last_seen s)\<rparr>, echo))
     else if \<not> has_key (v_clients s) address then (s, [])
     else
       (let seen = AList.update address now (v_last_seen s);
            targets = filter (\<lambda>a. a \<noteq> address) (map fst (v_clients s));
            disconnected = filter fails targets
        in (s\<lparr>v_clients := pop_all disconnected (v_clients s),
               v_last_seen := pop_all disconnected seen\<rparr>,
            map (\<lambda>a. (a, data)) targets)))"

section \<open>AudioServer (server\_modules/audio\_module.py)\<close>

record audio_server =
  a_clients :: "(address \<times> string) list"
  a_last_seen :: "(address \<times> time) list"
  a_latest_chunks :: "(address \<times> bytes) list"

text \<open>
  \<open>np.frombuffer(chunk, dtype=np.int16)\<close> reads consecutive byte pairs as 16-bit samples
  (least significant byte first on the little-endian hosts the program runs on) and
  raises \<open>ValueError\<close> when the length of the buffer is odd; \<open>tobytes\<close> is its inverse.
\<close>

fun frombuffer_int16 :: "bytes \<Rightarrow> 16 word list" where
  "frombuffer_int16 (lo # hi # rest) =
     (word_of_nat (of_char lo + 256 * of_char hi) :: 16 word) # frombuffer_int16 rest"
| "frombuffer_int16 _ = []"

definition tobytes_int16 :: "16 word list \<Rightarrow> bytes" where
  "tobytes_int16 ws =
     concat (map (\<lambda>w. [char_of (unat w mod 256), char_of (unat w div 256)]) ws)"

text \<open>
  The arithmetic of \<open>_build_mix_for_target\<close> is numpy's on float32 arrays, element by
  element. Its operations enter as a parameter: \<open>'f\<close> is the type of a float32 value,
  \<open>sum_f32\<close> is \<open>np.sum(_, axis=0, dtype=np.float32)\<close> at one sample position (it gets the
  samples of all arrays at that position), \<open>div_f32\<close> and \<open>mul_f32\<close> divide and multiply
  by a Python number, \<open>tanh_f32\<close> is \<open>np.tanh\<close>, \<open>clip_f32\<close> is \<open>np.clip\<close> and
  \<open>astype_int16\<close> is \<open>astype(np.int16)\<close>.
\<close>

record 'f float32_ops =
  sum_f32 :: "16 word list \<Rightarrow> 'f"
  div_f32 :: "'f \<Rightarrow> real \<Rightarrow> 'f"
  mul_f32 :: "'f \<Rightarrow> real \<Rightarrow> 'f"
  tanh_f32 :: "'f \<Rightarrow> 'f"
  clip_f32 :: "'f \<Rightarrow> real \<Rightarrow> real \<Rightarrow> 'f"
  astype_int16 :: "'f \<Rightarrow> 16 word"

text \<open>
  \<open>_build_mix_for_target\<close>. A chunk of fewer than two bytes is skipped, and so is one of
  odd length, on which \<open>np.frombuffer\<close> raises. \<open>None\<close> is Python's \<open>None\<close>.
\<close>

definition build_mix_for_target ::
  "'f float32_ops \<Rightarrow> audio_server \<Rightarrow> address \<Rightarrow> bytes option" where
  "build_mix_for_target ops s target_address =
    (let contributors =
           map snd (filter (\<lambda>(addr, chunk). addr \<noteq> target_address \<and> chunk \<noteq> [])
                      (a_latest_chunks s))
     in if contributors = [] then None
        else
          (let arrays = map frombuffer_int16
                 (filter (\<lambda>chunk. \<not> length chunk < 2 \<and> even (length chunk)) contributors)
           in if arrays = [] \<or> Min (set (map length arrays)) = 0 then None
              else
                (let min_length = Min (set (map length arrays));
                     arrays = map (take min_length) arrays;
                     mixed = map (\<lambda>i. sum_f32 ops (map (\<lambda>pcm. pcm ! i) arrays)) [0..<min_length];
                     mixed = map (\<lambda>x. div_f32 ops x (real (max (length arrays) 1))) mixed;
                     mixed = map (\<lambda>x. mul_f32 ops (tanh_f32 ops (div_f32 ops x 32768)) 32767) mixed;
                     mixed = map (\<lambda>x. clip_f32 ops x (- 32768) 32767) mixed
                 in Some (tobytes_int16 (map (astype_int16 ops) mixed)))))"

text \<open>
  One turn of the loop of the audio \<open>_receive_and_broadcast\<close>. A mix that is \<open>None\<close> or
  empty is not sent.
\<close>

definition audio_receive_and_broadcast ::
  "(bytes \<Rightarrow> string) \<Rightarrow> 'f float32_ops \<Rightarrow> (address \<Rightarrow> bool) \<Rightarrow> time \<Rightarrow> bytes
    \<Rightarrow> address \<Rightarrow> audio_server \<Rightarrow> audio_server \<times> (address \<times> bytes) list" where
  "audio_receive_and_broadcast decode ops fails now data address s =
    (if data = [] then (s, [])
     else if startswith data REGISTER_PREFIX then
       (let username = decode (drop (length REGISTER_PREFIX) data)
        in (s\<lparr>a_clients := AList.update address username (a_clients s),
               a_last_seen := AList.update address now (a_last_seen s),
               a_latest_chunks := setdefault address [] (a_latest_chunks s)\<rparr>, []))
     else if \<not> has_key (a_clients s) address then (s, [])
     else
       (let s1 = s\<lparr>a_last_seen := AList.update address now (a_last_seen s),
                    a_latest_chunks := AList.update address data (a_latest_chunks s)\<rparr>;
            targets = filter (\<lambda>a. a \<noteq> address) (map fst (a_clients s1));
            mixes = concat (map (\<lambda>a. case build_mix_for_target ops s1 a of
                                         None \<Rightarrow> []
                                       | Some m \<Rightarrow> (if m = [] then [] else [(a, m)])) targets);
            disconnected = filter fails (map fst mixes)
        in (s1\<lparr>a_clients := pop_all disconnected (a_clients s1),
                a_last_seen := pop_all disconnected (a_last_seen s1),
                a_latest_chunks := pop_all disconnected (a_latest_chunks s1)\<rparr>,
            mixes)))"

text \<open>
  The downmix as the specification words it, for the contributing chunks of a listener:
  every sender's latest non-empty chunk except the listener's own. Each chunk is decoded
  as 16-bit PCM (whole samples), the buffers are truncated to the shortest common length
  and summed as floating point, the sum is divided by the number of contributors, the
  limiter \<open>tanh(sum / 32768) * 32767\<close> is applied, the result is clamped to the 16-bit
  signed range and encoded again.
\<close>

definition contributing_chunks :: "audio_server \<Rightarrow> address \<Rightarrow> bytes list" where
  "contributing_chunks s listener =
     map snd (filter (\<lambda>(sender, chunk). sender \<noteq> listener \<and> chunk \<noteq> []) (a_latest_chunks s))"

definition reference_downmix :: "'f float32_ops \<Rightarrow> bytes list \<Rightarrow> bytes" where
  "reference_downmix ops chunks =
     (let decoded = map frombuffer_int16 chunks;
          shortest = Min (set (map length decoded));
          truncated = map (take shortest) decoded;
          limited = map (\<lambda>i.
              clip_f32 ops
                (mul_f32 ops
                  (tanh_f32 ops
                    (div_f32 ops
                      (div_f32 ops (sum_f32 ops (map (\<lambda>d. d ! i) truncated)) (real (length chunks)))
                      32768))
                  32767)
                (- 32768) 32767) [0..<shortest]
      in tobytes_int16 (map (astype_int16 ops) limited))"

definition decodable :: "bytes \<Rightarrow> bool" where
  "decodable chunk = (2 \<le> length chunk \<and> even (length chunk))"

section \<open>ScreenServer (server\_modules/screen\_module.py)\<close>

text \<open>
  A client socket is known by a number. \<open>clients\<close> maps a username to its socket,
  \<open>client_threads\<close> a username to its handler thread (named by the socket it serves),
  \<open>current_presenter\<close> is \<open>None\<close> or a username.
\<close>

type_synonym sock = nat

datatype screen_message =
    presenter_started string
  | presenter_stopped string
  | presenting_allowed bool "string option"
  | screen_frame string bytes

record screen_server =
  s_clients :: "(string \<times> sock) list"
  s_client_threads :: "(string \<times> sock) list"
  current_presenter :: "string option"

text \<open>
  Every function below returns the new server and the \<open>sendall\<close> calls it made, in
  order, as pairs (username of the receiving registry entry, message).
  \<open>fails sock message\<close> says that \<open>sendall\<close> of that message on that socket raises.
\<close>

definition remove_client :: "string \<Rightarrow> screen_server \<Rightarrow> screen_server" where
  "remove_client username s =
     s\<lparr>s_clients := AList.delete username (s_clients s),
       s_client_threads := AList.delete username (s_client_threads s)\<rparr>"

definition send_to_client ::
  "(sock \<Rightarrow> screen_message \<Rightarrow> bool) \<Rightarrow> string \<Rightarrow> screen_message \<Rightarrow> screen_server
    \<Rightarrow> screen_server \<times> (string \<times> screen_message) list" where
  "send_to_client fails username message s =
     (case map_of (s_clients s) username of
        None \<Rightarrow> (s, [])
      | Some client_socket \<Rightarrow>
          (if fails client_socket message then remove_client username s else s,
           [(username, message)]))"

definition broadcast_to_all ::
  "(sock \<Rightarrow> screen_message \<Rightarrow> bool) \<Rightarrow> screen_message \<Rightarrow> screen_server
    \<Rightarrow> screen_server \<times> (string \<times> screen_message) list" where
  "broadcast_to_all fails message s =
     (let items = s_clients s;
          disconnected = map fst (filter (\<lambda>(username, client_socket). fails client_socket message) items)
      in (fold remove_client disconnected s, map (\<lambda>(username, client_socket). (username, message)) items))"

definition broadcast_to_all_except ::
  "(sock \<Rightarrow> screen_message \<Rightarrow> bool) \<Rightarrow> string \<Rightarrow> screen_message \<Rightarrow> screen_server
    \<Rightarrow> screen_server \<times> (string \<times> screen_message) list" where
  "broadcast_to_all_except fails sender_username message s =
     (let items = filter (\<lambda>(username, client_socket). username \<noteq> sender_username) (s_clients s);
          disconnected = map fst (filter (\<lambda>(username, client_socket). fails client_socket message) items)
      in (fold remove_client disconnected s, map (\<lambda>(username, client_socket). (username, message)) items))"

definition handle_start_presenting ::
  "(sock \<Rightarrow> screen_message \<Rightarrow> bool) \<Rightarrow> string \<Rightarrow> screen_server
    \<Rightarrow> screen_server \<times> (string \<times> screen_message) list" where
  "handle_start_presenting fails username s =
     (case current_presenter s of
        None \<Rightarrow>
          (let (s1, sent1) = broadcast_to_all fails (presenter_started username)
                               (s\<lparr>current_presenter := Some username\<rparr>);
               (s2, sent2) = send_to_client fails username (presenting_allowed True None) s1
           in (s2, sent1 @ sent2))
      | Some other \<Rightarrow>
          send_to_client fails username (presenting_allowed False (Some other)) s)"

definition handle_stop_presenting ::
  "(sock \<Rightarrow> screen_message \<Rightarrow> bool) \<Rightarrow> string \<Rightarrow> screen_server
    \<Rightarrow> screen_server \<times> (string \<times> screen_message) list" where
  "handle_stop_presenting fails username s =
     (if current_presenter s = Some username
      then broadcast_to_all fails (presenter_stopped username) (s\<lparr>current_presenter := None\<rparr>)
      else (s, []))"

text \<open>
  The body of \<open>_accept_clients\<close> for one connection whose first packet decodes to
  \<open>username\<close>. \<open>if self.current_presenter:\<close> is false for \<open>None\<close> and for the empty string.
\<close>

definition accept_client ::
  "(sock \<Rightarrow> screen_message \<Rightarrow> bool) \<Rightarrow> string \<Rightarrow> sock \<Rightarrow> screen_server
    \<Rightarrow> screen_server \<times> (string \<times> screen_message) list" where
  "accept_client fails username client_socket s =
     (let s1 = s\<lparr>s_clients := AList.update username client_socket (s_clients s)\<rparr>;
          (s2, sent) =
             (case current_presenter s1 of
                None \<Rightarrow> (s1, [])
              | Some p \<Rightarrow> if p = [] then (s1, [])
                          else send_to_client fails username (presenter_started p) s1)
      in (s2\<lparr>s_client_threads := AList.update username client_socket (s_client_threads s2)\<rparr>,
          sent))"

text \<open>
  The messages a client sends, after unpickling, by their \<open>type\<close> field; \<open>other_type\<close> is
  any other value of the field, which \<open>_handle_client\<close> skips.
\<close>

datatype client_request =
    start_presenting
  | stop_presenting
  | screen_frame_from bytes
  | other_type

definition handle_request ::
  "(sock \<Rightarrow> screen_message \<Rightarrow> bool) \<Rightarrow> string \<Rightarrow> client_request \<Rightarrow> screen_server
    \<Rightarrow> screen_server \<times> (string \<times> screen_message) list" where
  "handle_request fails username request s =
     (case request of
        start_presenting \<Rightarrow> handle_start_presenting fails username s
      | stop_presenting \<Rightarrow> handle_stop_presenting fails username s
      | screen_frame_from frame \<Rightarrow>
          (if current_presenter s = Some username
           then broadcast_to_all_except fails username (screen_frame username frame) s
           else (s, []))
      | other_type \<Rightarrow> (s, []))"

text \<open>The end of \<open>_handle_client\<close>, reached when the connection closes or an error is raised.\<close>

definition client_disconnected ::
  "(sock \<Rightarrow> screen_message \<Rightarrow> bool) \<Rightarrow> string \<Rightarrow> screen_server
    \<Rightarrow> screen_server \<times> (string \<times> screen_message) list" where
  "client_disconnected fails username s =
     (let (s1, sent) = handle_stop_presenting fails username s
      in (remove_client username s1, sent))"

text \<open>The presenter is empty or the username of a registered client.\<close>

definition presenter_registered :: "screen_server \<Rightarrow> bool" where
  "presenter_registered s =
     (case current_presenter s of None \<Rightarrow> True | Some p \<Rightarrow> has_key (s_clients s) p)"

section \<open>ParticipantServer (server\_modules/participant\_module.py)\<close>

text \<open>
  \<open>clients\<close> maps a socket to the username given on it, \<open>participants\<close> a username to
  its record. \<open>joined_at\<close> is the text \<open>datetime.now().strftime('%H:%M:%S')\<close>, which
  enters as the argument \<open>now\<close>.
\<close>

record participant =
  status :: string
  joined_at :: string
  video_active :: bool

datatype participant_message =
    participant_list "(string \<times> participant) list"
  | keepalive_ack

record participant_server =
  p_clients :: "(sock \<times> string) list"
  participants :: "(string \<times> participant) list"

text \<open>
  \<open>_send_participant_list\<close> sends the roster on one socket; an exception of the send is
  caught and changes nothing.
\<close>

definition send_participant_list ::
  "sock \<Rightarrow> participant_server \<Rightarrow> (sock \<times> participant_message) list" where
  "send_participant_list client_socket s = [(client_socket, participant_list (participants s))]"

text \<open>
  \<open>_broadcast_participant_update\<close>: the roster and the list of clients are read first,
  the roster is sent on every socket, and every socket whose \<open>sendall\<close> raised is then
  deleted from \<open>clients\<close> together with the record of its username.
\<close>

definition drop_connection :: "sock \<times> string \<Rightarrow> participant_server \<Rightarrow> participant_server" where
  "drop_connection c s =
     s\<lparr>p_clients := AList.delete (fst c) (p_clients s),
       participants := AList.delete (snd c) (participants s)\<rparr>"

definition broadcast_participant_update ::
  "(sock \<Rightarrow> bool) \<Rightarrow> participant_server
    \<Rightarrow> participant_server \<times> (sock \<times> participant_message) list" where
  "broadcast_participant_update fails s =
     (let message = participant_list (participants s);
          clients_to_notify = p_clients s;
          disconnected = filter (\<lambda>(client_socket, username). fails client_socket) clients_to_notify
      in (fold drop_connection disconnected s,
          map (\<lambda>(client_socket, username). (client_socket, message)) clients_to_notify))"

text \<open>The body of \<open>_accept_clients\<close> for one connection that gives \<open>username\<close>.\<close>

definition accept_participant ::
  "(sock \<Rightarrow> bool) \<Rightarrow> string \<Rightarrow> string \<Rightarrow> sock \<Rightarrow> participant_server
    \<Rightarrow> participant_server \<times> (sock \<times> participant_message) list" where
  "accept_participant fails now username client_socket s =
     (let s1 = s\<lparr>p_clients := AList.update client_socket username (p_clients s),
                  participants := AList.update username
                     \<lparr>status = ''online'', joined_at = now, video_active = False\<rparr>
                     (participants s)\<rparr>;
          sent1 = send_participant_list client_socket s1;
          (s2, sent2) = broadcast_participant_update fails s1
      in (s2, sent1 @ sent2))"

text \<open>
  \<open>_remove_participant\<close>, which the handler of a connection runs in its \<open>finally\<close>
  clause, however the connection ended (no data, timeout, error).
\<close>

definition remove_participant ::
  "(sock \<Rightarrow> bool) \<Rightarrow> string \<Rightarrow> sock \<Rightarrow> participant_server
    \<Rightarrow> participant_server \<times> (sock \<times> participant_message) list" where
  "remove_participant fails username client_socket s =
     (let removed = (has_key (p_clients s) client_socket \<or> has_key (participants s) username);
          s1 = s\<lparr>p_clients := AList.delete client_socket (p_clients s),
                  participants := AList.delete username (participants s)\<rparr>
      in if removed then broadcast_participant_update fails s1 else (s1, []))"

text \<open>The rosters carried by a list of sent messages.\<close>

definition rosters :: "(sock \<times> participant_message) list \<Rightarrow> (string \<times> participant) list list" where
  "rosters sent = concat (map (\<lambda>(c, m). case m of participant_list r \<Rightarrow> [r] | keepalive_ack \<Rightarrow> []) sent)"

section \<open>FileServer (server\_modules/file\_module.py)\<close>

text \<open>FILE\_TRANSFER\_CONFIG of constants.py.\<close>

definition CHUNK_SIZE :: int where
  "CHUNK_SIZE = 8192"

definition MAX_FILE_SIZE :: int where
  "MAX_FILE_SIZE = 500 * 1024 * 1024"

text \<open>
  What a TCP connection delivers to the server, in order: a segment of bytes, or a reset
  of the connection, on which \<open>recv\<close> raises (with the given text). At the end of the
  list the peer has closed the connection, and \<open>recv\<close> returns \<open>b''\<close>.
  \<open>recv n\<close> returns at most \<open>n\<close> bytes of the next segment and leaves the rest.
\<close>

datatype recv_event = segment bytes | conn_reset string

datatype recv_result = returned bytes | raised string

fun recv :: "nat \<Rightarrow> recv_event list \<Rightarrow> recv_result \<times> recv_event list" where
  "recv n [] = (returned [], [])"
| "recv n (conn_reset e # rest) = (raised e, rest)"
| "recv n (segment b # rest) =
     (if b = [] then recv n rest
      else (returned (take n b), if drop n b = [] then rest else segment (drop n b) # rest))"

record file_info =
  file_size :: int
  uploader :: string

text \<open>
  A request, after \<open>json.loads\<close>, by its \<open>command\<close>. \<open>UPLOAD_bad\<close> is an upload whose
  fields raise in \<open>_handle_upload\<close> (a field is missing, or \<open>filesize\<close> is no number), with
  the text of the exception; \<open>DOWNLOAD_bad\<close> is a download without a \<open>filename\<close>;
  \<open>other_command\<close> is any other command, or none.
\<close>

datatype file_request =
    UPLOAD string int string
  | UPLOAD_bad string
  | DOWNLOAD string
  | DOWNLOAD_bad
  | LIST
  | other_command

datatype file_message =
    status_error string
  | status_ready
  | status_ready_filesize int
  | status_success string
  | file_list "(string \<times> file_info) list"
  | file_list_update "(string \<times> file_info) list"
  | file_data bytes

text \<open>
  \<open>clients\<close> is the list of connected sockets, \<open>available_files\<close> the catalog, and
  \<open>storage\<close> the files under \<open>storage_path\<close>, by file name.
\<close>

record file_server =
  f_clients :: "sock list"
  available_files :: "(string \<times> file_info) list"
  storage :: "(string \<times> bytes) list"

text \<open>
  The loop of \<open>_handle_upload\<close> that reads the file: from \<open>received\<close> bytes read and
  \<open>written\<close> bytes in the file, it gives the exception raised by \<open>recv\<close> if any, the number
  of bytes read, the contents of the file and the rest of the connection.
\<close>

function receive_file ::
  "int \<Rightarrow> int \<Rightarrow> bytes \<Rightarrow> recv_event list \<Rightarrow> string option \<times> int \<times> bytes \<times> recv_event list" where
  "receive_file filesize received written stream =
     (if received < filesize then
        (case recv (nat (min CHUNK_SIZE (filesize - received))) stream of
           (raised e, stream') \<Rightarrow> (Some e, received, written, stream')
         | (returned chunk, stream') \<Rightarrow>
             if chunk = [] then (None, received, written, stream')
             else receive_file filesize (received + int (length chunk)) (written @ chunk) stream')
      else (None, received, written, stream))"
  by pat_completeness auto
termination
  by (relation "measure (\<lambda>(filesize, received, written, stream). nat (filesize - received))")
     auto

declare receive_file.simps [simp del]

text \<open>
  \<open>fails sock message\<close> is \<open>None\<close> when \<open>send\<close> of the message on the socket succeeds and
  the text of the exception when it raises. Every function returns the \<open>send\<close> calls it
  made, in order.
\<close>

definition broadcast_file_list ::
  "(sock \<Rightarrow> file_message \<Rightarrow> string option) \<Rightarrow> file_server
    \<Rightarrow> file_server \<times> (sock \<times> file_message) list" where
  "broadcast_file_list fails s =
     (let message = file_list_update (available_files s);
          disconnected = filter (\<lambda>client_socket. fails client_socket message \<noteq> None) (f_clients s)
      in (s\<lparr>f_clients := fold remove1 disconnected (f_clients s)\<rparr>,
          map (\<lambda>client_socket. (client_socket, message)) (f_clients s)))"

definition send_file_list ::
  "sock \<Rightarrow> file_server \<Rightarrow> (sock \<times> file_message) list" where
  "send_file_list client_socket s = [(client_socket, file_list (available_files s))]"

text \<open>
  \<open>_handle_upload\<close> for a request with the fields \<open>filename\<close>, \<open>filesize\<close> (an integer)
  and \<open>username\<close>. It returns the server, the sends, and what is left of the connection.
  The \<open>except\<close> clause answers any exception with an error status.
\<close>

definition handle_upload ::
  "(sock \<Rightarrow> file_message \<Rightarrow> string option) \<Rightarrow> sock \<Rightarrow> string \<Rightarrow> int \<Rightarrow> string
    \<Rightarrow> file_server \<Rightarrow> recv_event list
    \<Rightarrow> file_server \<times> (sock \<times> file_message) list \<times> recv_event list" where
  "handle_upload fails client_socket filename filesize username s stream =
     (if filesize > MAX_FILE_SIZE then
        (case fails client_socket (status_error ''File too large'') of
           None \<Rightarrow> (s, [(client_socket, status_error ''File too large'')], stream)
         | Some e \<Rightarrow> (s, [(client_socket, status_error ''File too large''),
                          (client_socket, status_error e)], stream))
      else
        (case fails client_socket status_ready of
           Some e \<Rightarrow> (s, [(client_socket, status_ready), (client_socket, status_error e)], stream)
         | None \<Rightarrow>
             (case receive_file filesize 0 [] stream of
                (exc, received, written, stream') \<Rightarrow>
                  (let s1 = s\<lparr>storage := AList.update filename written (storage s)\<rparr>
                   in case exc of
                        Some e \<Rightarrow> (s1, [(client_socket, status_ready),
                                         (client_socket, status_error e)], stream')
                      | None \<Rightarrow>
                          (let s2 = s1\<lparr>available_files := AList.update filename
                                        \<lparr>file_size = filesize, uploader = username\<rparr>
                                        (available_files s1)\<rparr>;
                               success = status_success ''File uploaded successfully''
                           in case fails client_socket success of
                                Some e \<Rightarrow> (s2, [(client_socket, status_ready),
                                                 (client_socket, success),
                                                 (client_socket, status_error e)], stream')
                              | None \<Rightarrow>
                                  (let (s3, sent) = broadcast_file_list fails s2
                                   in (s3, [(client_socket, status_ready),
                                            (client_socket, success)] @ sent, stream')))))))"

text \<open>
  \<open>_handle_download\<close>: the file is read in pieces of \<open>CHUNK_SIZE\<close> bytes after the client's
  ready token; any exception ends the download without a reply.
\<close>

fun send_chunks ::
  "(sock \<Rightarrow> file_message \<Rightarrow> string option) \<Rightarrow> sock \<Rightarrow> bytes list \<Rightarrow> (sock \<times> file_message) list" where
  "send_chunks fails client_socket [] = []"
| "send_chunks fails client_socket (chunk # chunks) =
     (client_socket, file_data chunk) #
       (if fails client_socket (file_data chunk) = None
        then send_chunks fails client_socket chunks else [])"

definition file_chunks :: "bytes \<Rightarrow> bytes list" where
  "file_chunks content =
     map (\<lambda>i. take (nat CHUNK_SIZE) (drop (i * nat CHUNK_SIZE) content))
       [0..<(length content + nat CHUNK_SIZE - 1) div nat CHUNK_SIZE]"

definition handle_download ::
  "(sock \<Rightarrow> file_message \<Rightarrow> string option) \<Rightarrow> sock \<Rightarrow> string
    \<Rightarrow> file_server \<Rightarrow> recv_event list
    \<Rightarrow> file_server \<times> (sock \<times> file_message) list \<times> recv_event list" where
  "handle_download fails client_socket filename s stream =
     (case map_of (storage s) filename of
        None \<Rightarrow> (s, [(client_socket, status_error ''File not found'')], stream)
      | Some content \<Rightarrow>
          (let ready = status_ready_filesize (int (length content))
           in if fails client_socket ready \<noteq> None then (s, [(client_socket, ready)], stream)
              else
                (case recv 1024 stream of
                   (raised e, stream') \<Rightarrow> (s, [(client_socket, ready)], stream')
                 | (returned token, stream') \<Rightarrow>
                     (s, (client_socket, ready) # send_chunks fails client_socket (file_chunks content),
                      stream'))))"

text \<open>
  One turn of the loop of \<open>_handle_client\<close>. \<open>parse\<close> stands for \<open>decode('utf-8')\<close> and
  \<open>json.loads\<close>: \<open>None\<close> when they raise or the result is no JSON object. The turn
  ends the connection (\<open>None\<close> for the rest of the connection) when \<open>recv\<close> returns no data
  or something raises, and the \<open>finally\<close> clause then takes the socket out of \<open>clients\<close>.
\<close>

definition connection_closed :: "sock \<Rightarrow> file_server \<Rightarrow> file_server" where
  "connection_closed client_socket s = s\<lparr>f_clients := remove1 client_socket (f_clients s)\<rparr>"

definition handle_client_turn ::
  "(sock \<Rightarrow> file_message \<Rightarrow> string option) \<Rightarrow> (bytes \<Rightarrow> file_request option) \<Rightarrow> sock
    \<Rightarrow> file_server \<Rightarrow> recv_event list
    \<Rightarrow> file_server \<times> (sock \<times> file_message) list \<times> recv_event list option" where
  "handle_client_turn fails parse client_socket s stream =
     (case recv 1024 stream of
        (raised e, stream') \<Rightarrow> (connection_closed client_socket s, [], None)
      | (returned data, stream') \<Rightarrow>
          if data = [] then (connection_closed client_socket s, [], None)
          else
            (case parse data of
               None \<Rightarrow> (connection_closed client_socket s, [], None)
             | Some (UPLOAD filename filesize username) \<Rightarrow>
                 (case handle_upload fails client_socket filename filesize username s stream' of
                    (s', sent, stream'') \<Rightarrow> (s', sent, Some stream''))
             | Some (UPLOAD_bad e) \<Rightarrow> (s, [(client_socket, status_error e)], Some stream')
             | Some (DOWNLOAD filename) \<Rightarrow>
                 (case handle_download fails client_socket filename s stream' of
                    (s', sent, stream'') \<Rightarrow> (s', sent, Some stream''))
             | Some DOWNLOAD_bad \<Rightarrow> (s, [], Some stream')
             | Some LIST \<Rightarrow> (s, send_file_list client_socket s, Some stream')
             | Some other_command \<Rightarrow> (s, [], Some stream')))"

text \<open>
  \<open>_handle_client\<close>: turns are taken until the connection ends. It ends, since every turn
  that goes on has taken at least one byte of the connection, whose size is \<open>weight\<close>.
\<close>

fun weight :: "recv_event list \<Rightarrow> nat" where
  "weight [] = 0"
| "weight (segment b # rest) = length b + 1 + weight rest"
| "weight (conn_reset e # rest) = 1 + weight rest"

lemma recv_weight: "weight (snd (recv n stream)) \<le> weight stream"
  by (induction n stream rule: recv.induct) auto

lemma recv_weight_data:
  "recv n stream = (returned chunk, stream') \<Longrightarrow> chunk \<noteq> [] \<Longrightarrow> weight stream' < weight stream"
  by (induction n stream rule: recv.induct) (auto split: if_splits)

lemma receive_file_weight:
  "receive_file filesize received written stream = (exc, received', written', stream')
     \<Longrightarrow> weight stream' \<le> weight stream"
proof (induction filesize received written stream rule: receive_file.induct)
  case (1 filesize received written stream)
  show ?case
  proof (cases "received < filesize")
    case False
    with "1.prems" show ?thesis by (simp add: receive_file.simps)
  next
    case True
    obtain r st where r: "recv (nat (min CHUNK_SIZE (filesize - received))) stream = (r, st)"
      by force
    have le: "weight st \<le> weight stream"
      using recv_weight [of "nat (min CHUNK_SIZE (filesize - received))" stream] r by simp
    show ?thesis
    proof (cases r)
      case (raised e)
      with True r "1.prems" le show ?thesis by (simp add: receive_file.simps)
    next
      case (returned chunk)
      show ?thesis
      proof (cases "chunk = []")
        case True
        with \<open>received < filesize\<close> r returned "1.prems" le show ?thesis
          by (simp add: receive_file.simps)
      next
        case False
        with \<open>received < filesize\<close> r returned "1.prems"
        have "receive_file filesize (received + int (length chunk)) (written @ chunk) st
                = (exc, received', written', stream')"
          by (simp add: receive_file.simps [of filesize received])
        from "1.IH" [OF \<open>received < filesize\<close> r [symmetric] returned False this] le
        show ?thesis by simp
      qed
    qed
  qed
qed

lemma handle_upload_weight:
  "handle_upload fails client_socket filename filesize username s stream = (s', sent, stream')
     \<Longrightarrow> weight stream' \<le> weight stream"
  by (auto simp: handle_upload_def Let_def split: if_splits option.splits prod.splits
      dest: receive_file_weight)

lemma handle_download_weight:
  "handle_download fails client_socket filename s stream = (s', sent, stream')
     \<Longrightarrow> weight stream' \<le> weight stream"
  using recv_weight [of 1024 stream]
  by (auto simp: handle_download_def Let_def split: if_splits option.splits prod.splits recv_result.splits)

lemma handle_client_turn_weight:
  assumes "handle_client_turn fails parse client_socket s stream = (s', sent, Some stream')"
  shows "weight stream' < weight stream"
proof -
  obtain r st where r: "recv 1024 stream = (r, st)" by force
  with assms obtain data where d: "r = returned data" "data \<noteq> []"
    by (cases r) (auto simp: handle_client_turn_def split: if_splits)
  have lt: "weight st < weight stream"
    using recv_weight_data r d by simp
  from assms r d have "weight stream' \<le> weight st"
    by (auto simp: handle_client_turn_def
        split: option.splits file_request.splits prod.splits
        dest: handle_upload_weight handle_download_weight)
  with lt show ?thesis by simp
qed

function handle_client ::
  "(sock \<Rightarrow> file_message \<Rightarrow> string option) \<Rightarrow> (bytes \<Rightarrow> file_request option) \<Rightarrow> sock
    \<Rightarrow> file_server \<Rightarrow> recv_event list \<Rightarrow> file_server \<times> (sock \<times> file_message) list" where
  "handle_client fails parse client_socket s stream =
     (case handle_client_turn fails parse client_socket s stream of
        (s', sent, None) \<Rightarrow> (s', sent)
      | (s', sent, Some stream') \<Rightarrow>
          (case handle_client fails parse client_socket s' stream' of
             (s'', sent') \<Rightarrow> (s'', sent @ sent')))"
  by pat_completeness auto
termination
  by (relation "measure (\<lambda>(fails, parse, client_socket, s, stream). weight stream)")
     (auto dest: handle_client_turn_weight [OF sym])

declare handle_client.simps [simp del]

section \<open>MainServer (server.py)\<close>

text \<open>
  A server module is seen by the orchestrator through \<open>start()\<close> and \<open>stop()\<close>. What
  \<open>start()\<close> does is the environment's choice (a port may be taken): it returns \<open>None\<close>
  (chat, file, video, audio), \<open>True\<close> or \<open>False\<close> (screen share, participants), or raises.
  An exception of \<open>stop()\<close> is caught by \<open>_stop_modules_list\<close> and only logged, so it does
  not show here. Each module sets its \<open>running\<close> flag at the end of a
  \<open>start()\<close> that binds and listens, and clears it first thing in \<open>stop()\<close>.
\<close>

datatype start_outcome = returns_None | returns_True | returns_False | start_raises string

type_synonym server_module = "string \<times> start_outcome"

datatype event =
    update_status string string
  | start_called string
  | stop_called string

datatype outcome = completed | raised_error string

text \<open>
  \<open>modules\<close>, \<open>module_states\<close>, \<open>active_modules\<close> and \<open>running\<close> are the fields of
  \<open>MainServer\<close>; \<open>modules_running\<close> lists the modules whose own \<open>running\<close> flag is set.
  The events are the calls of the modules and of the status callback, in order; the log
  lines are left out.
\<close>

record main_server =
  modules :: "server_module list"
  module_states :: "(string \<times> string) list"
  active_modules :: "server_module list"
  running :: bool
  modules_running :: "string list"

definition set_status :: "string \<Rightarrow> string \<Rightarrow> main_server \<Rightarrow> main_server" where
  "set_status name st s = s\<lparr>module_states := AList.update name st (module_states s)\<rparr>"

text \<open>\<open>_stop_modules_list\<close>, on a list that is already reversed.\<close>

fun stop_each :: "server_module list \<Rightarrow> main_server \<Rightarrow> main_server \<times> event list" where
  "stop_each [] s = (s, [])"
| "stop_each ((name, server) # rest) s =
     (let s1 = set_status name ''stopping'' s;
          s2 = s1\<lparr>modules_running := removeAll name (modules_running s1)\<rparr>;
          s3 = set_status name ''stopped'' s2;
          (s4, events) = stop_each rest s3
      in (s4, [update_status name ''stopping'', stop_called name, update_status name ''stopped'']
              @ events))"

definition stop_modules_list :: "server_module list \<Rightarrow> main_server \<Rightarrow> main_server \<times> event list" where
  "stop_modules_list ms s = stop_each (rev ms) s"

text \<open>
  The \<open>for\<close> loop of \<open>start_modules\<close>: it gives the exception that ended it, if any, with
  the name of the module it was at, and the list \<open>started\<close>.
\<close>

fun start_each ::
  "server_module list \<Rightarrow> server_module list \<Rightarrow> main_server
    \<Rightarrow> (string \<times> string) option \<times> server_module list \<times> main_server \<times> event list" where
  "start_each [] started s = (None, started, s, [])"
| "start_each ((name, server) # rest) started s =
     (let s1 = set_status name ''starting'' s;
          called = [update_status name ''starting'', start_called name]
      in case server of
           start_raises e \<Rightarrow> (Some (e, name), started, s1, called)
         | returns_False \<Rightarrow> (Some (name @ '' reported startup failure'', name), started, s1, called)
         | _ \<Rightarrow>
             (let s2 = s1\<lparr>modules_running := modules_running s1 @ [name]\<rparr>;
                  s3 = set_status name ''running'' s2;
                  (exc, started', s4, events) = start_each rest (started @ [(name, server)]) s3
              in (exc, started', s4, called @ [update_status name ''running''] @ events)))"

definition start_modules :: "main_server \<Rightarrow> main_server \<times> event list \<times> outcome" where
  "start_modules s =
     (if running s then (s, [], completed)
      else
        (case start_each (modules s) [] s of
           (None, started, s1, events) \<Rightarrow>
             (s1\<lparr>active_modules := started, running := True\<rparr>, events, completed)
         | (Some (exc, name), started, s1, events) \<Rightarrow>
             (let s2 = set_status name ''error'' s1;
                  (s3, stops) = (if started \<noteq> [] then stop_modules_list started s2 else (s2, []))
              in (s3\<lparr>active_modules := [], running := False\<rparr>,
                  events @ [update_status name ''error''] @ stops,
                  raised_error exc))))"

definition stop_modules :: "main_server \<Rightarrow> main_server \<times> event list" where
  "stop_modules s =
     (if \<not> running s \<and> active_modules s = [] then (s, [])
      else (let (s1, events) = stop_modules_list (active_modules s) s
            in (s1\<lparr>active_modules := [], running := False\<rparr>, events)))"

text \<open>The calls of modules among the events.\<close>

fun is_call :: "event \<Rightarrow> bool" where
  "is_call (update_status name st) = False"
| "is_call _ = True"

definition start_fails :: "start_outcome \<Rightarrow> bool" where
  "start_fails server = (case server of
       start_raises e \<Rightarrow> True | returns_False \<Rightarrow> True | _ \<Rightarrow> False)"

definition failure_of :: "server_module \<Rightarrow> string" where
  "failure_of m = (case snd m of
       start_raises e \<Rightarrow> e | _ \<Rightarrow> fst m @ '' reported startup failure'')"


section \<open>VideoClient (client\_modules/video\_module.py)\<close>



definition MAX_DATAGRAM_SIZE :: nat where
  "MAX_DATAGRAM_SIZE = 8192"














definition frame_chunk :: "bytes \<Rightarrow> nat \<Rightarrow> bytes" where
  "frame_chunk frame_bytes chunk_index =
     take MAX_DATAGRAM_SIZE (drop (chunk_index * MAX_DATAGRAM_SIZE) frame_bytes)"


















section \<open>Datagrams from unknown addresses\<close>

text \<open>
  C10. In the video relay and in the audio mixer alike, a datagram that does not begin
  with \<open>REGISTER|\<close> and comes from an address that is not a key of the client registry is
  ignored: the server (registry, last-seen table, latest chunks) is returned as it was,
  and no packet is sent.
\<close>

theorem unknown_sender_ignored:
  assumes "\<not> startswith data REGISTER_PREFIX"
  shows "(\<not> has_key (v_clients vs) address \<longrightarrow>
            video_receive_and_broadcast decode fails now data address vs = (vs, []))
       \<and> (\<not> has_key (a_clients as) address \<longrightarrow>
            audio_receive_and_broadcast decode ops fails now data address as = (as, []))"
  using assms
  by (simp add: video_receive_and_broadcast_def audio_receive_and_broadcast_def)

theorem unknown_sender_ignored_witness:
  "\<not> startswith ''FRAME|eve|0|0|1|xy'' REGISTER_PREFIX
   \<and> \<not> has_key [((''10.0.0.2'', 5003::nat), ''alice'')] (''10.0.0.9'', 4000)
   \<and> video_receive_and_broadcast (\<lambda>b. b) (\<lambda>a. False) 7 ''FRAME|eve|0|0|1|xy'' (''10.0.0.9'', 4000)
         \<lparr>v_clients = [((''10.0.0.2'', 5003), ''alice'')], v_last_seen = [((''10.0.0.2'', 5003), 5)]\<rparr>
       = (\<lparr>v_clients = [((''10.0.0.2'', 5003), ''alice'')], v_last_seen = [((''10.0.0.2'', 5003), 5)]\<rparr>, [])
   \<and> audio_receive_and_broadcast (\<lambda>b. b)
         \<lparr>sum_f32 = \<lambda>c. 0::int, div_f32 = \<lambda>x c. x, mul_f32 = \<lambda>x c. x, tanh_f32 = \<lambda>x. x,
           clip_f32 = \<lambda>x lo hi. x, astype_int16 = word_of_int\<rparr>
         (\<lambda>a. False) 7 ''FRAME|eve|0|0|1|xy''
         (''10.0.0.9'', 4000)
         \<lparr>a_clients = [((''10.0.0.2'', 5003), ''alice'')], a_last_seen = [((''10.0.0.2'', 5003), 5)],
          a_latest_chunks = [((''10.0.0.2'', 5003), ''ab'')]\<rparr>
       = (\<lparr>a_clients = [((''10.0.0.2'', 5003), ''alice'')], a_last_seen = [((''10.0.0.2'', 5003), 5)],
          a_latest_chunks = [((''10.0.0.2'', 5003), ''ab'')]\<rparr>, [])"
proof -
  have d: "\<not> startswith ''FRAME|eve|0|0|1|xy'' REGISTER_PREFIX"
    by (simp add: startswith_def REGISTER_PREFIX_def)
  have k: "\<not> has_key [((''10.0.0.2'', 5003::nat), ''alice'')] (''10.0.0.9'', 4000)"
    by (simp add: has_key_def)
  show ?thesis
    using d k
      unknown_sender_ignored [OF d, of
        "\<lparr>v_clients = [((''10.0.0.2'', 5003), ''alice'')], v_last_seen = [((''10.0.0.2'', 5003), 5)]\<rparr>"
        "(''10.0.0.9'', 4000)" "\<lambda>b. b" "\<lambda>a. False" 7
        "\<lparr>a_clients = [((''10.0.0.2'', 5003), ''alice'')], a_last_seen = [((''10.0.0.2'', 5003), 5)],
          a_latest_chunks = [((''10.0.0.2'', 5003), ''ab'')]\<rparr>"
        "\<lparr>sum_f32 = \<lambda>c. 0::int, div_f32 = \<lambda>x c. x, mul_f32 = \<lambda>x c. x, tanh_f32 = \<lambda>x. x,
           clip_f32 = \<lambda>x lo hi. x, astype_int16 = word_of_int\<rparr>"]
    by simp
qed

section \<open>The exclusive presenter\<close>

lemma fold_remove_client_presenter:
  "current_presenter (fold remove_client ds s) = current_presenter s"
  by (induction ds arbitrary: s) (simp_all add: remove_client_def)

lemma fold_remove_client_clients:
  "s_clients (fold remove_client ds s) = pop_all ds (s_clients s)"
  by (induction ds arbitrary: s) (simp_all add: remove_client_def pop_all_def)

lemma set_pop_all:
  "set (pop_all ds al) = {p \<in> set al. fst p \<notin> set ds}"
  by (induction ds arbitrary: al) (auto simp: pop_all_def AList.delete_eq)

lemma broadcast_to_all_presenter:
  "broadcast_to_all fails m s = (s', sent) \<Longrightarrow> current_presenter s' = current_presenter s"
  by (auto simp: broadcast_to_all_def Let_def fold_remove_client_presenter)

lemma broadcast_to_all_sent:
  "broadcast_to_all fails m s = (s', sent) \<Longrightarrow> sent = map (\<lambda>u. (u, m)) (map fst (s_clients s))"
  by (auto simp: broadcast_to_all_def Let_def)

lemma broadcast_to_all_subset:
  "broadcast_to_all fails m s = (s', sent) \<Longrightarrow> set (s_clients s') \<subseteq> set (s_clients s)"
  by (auto simp: broadcast_to_all_def Let_def fold_remove_client_clients set_pop_all)

lemma broadcast_to_all_keeps:
  assumes "broadcast_to_all fails m s = (s', sent)"
    and "has_key (s_clients s) u"
    and "\<And>sock. (u, sock) \<in> set (s_clients s) \<Longrightarrow> \<not> fails sock m"
  shows "has_key (s_clients s') u"
proof -
  from assms(2) obtain sock where in_s: "(u, sock) \<in> set (s_clients s)"
    by (auto simp: has_key_def)
  have "u \<notin> set (map fst (filter (\<lambda>(username, client_socket). fails client_socket m) (s_clients s)))"
    using assms(3) by auto
  with in_s assms(1) have "(u, sock) \<in> set (s_clients s')"
    by (auto simp: broadcast_to_all_def Let_def fold_remove_client_clients set_pop_all)
  then show ?thesis by (force simp: has_key_def)
qed

lemma send_to_client_ok:
  assumes "has_key (s_clients s) u" and "\<And>sock. (u, sock) \<in> set (s_clients s) \<Longrightarrow> \<not> fails sock m"
  shows "send_to_client fails u m s = (s, [(u, m)])"
proof -
  from assms(1) obtain sock where "map_of (s_clients s) u = Some sock"
    by (auto simp: has_key_def weak_map_of_SomeI dest!: weak_map_of_SomeI)
  moreover from this have "(u, sock) \<in> set (s_clients s)" by (rule map_of_SomeD)
  ultimately show ?thesis using assms(2) by (simp add: send_to_client_def)
qed

lemma handle_start_presenting_busy:
  assumes "current_presenter s = Some A" and "has_key (s_clients s) B"
    and "\<And>sock. (B, sock) \<in> set (s_clients s) \<Longrightarrow> \<not> fails sock (presenting_allowed False (Some A))"
  shows "handle_start_presenting fails B s = (s, [(B, presenting_allowed False (Some A))])"
  using assms by (simp add: handle_start_presenting_def send_to_client_ok)

lemma handle_start_presenting_idle:
  assumes "current_presenter s = None" and "has_key (s_clients s) B"
    and "\<And>sock m. (B, sock) \<in> set (s_clients s) \<Longrightarrow> \<not> fails sock m"
    and "handle_start_presenting fails B s = (s', sent)"
  shows "current_presenter s' = Some B
       \<and> sent = map (\<lambda>u. (u, presenter_started B)) (map fst (s_clients s)) @ [(B, presenting_allowed True None)]"
proof -
  obtain s1 sent1 where b: "broadcast_to_all fails (presenter_started B) (s\<lparr>current_presenter := Some B\<rparr>) = (s1, sent1)"
    by force
  have p1: "current_presenter s1 = Some B"
    using broadcast_to_all_presenter [OF b] by simp
  have sent1: "sent1 = map (\<lambda>u. (u, presenter_started B)) (map fst (s_clients s))"
    using broadcast_to_all_sent [OF b] by simp
  have k1: "has_key (s_clients s1) B"
    using broadcast_to_all_keeps [OF b] assms(2,3) by simp
  have sub: "set (s_clients s1) \<subseteq> set (s_clients s)"
    using broadcast_to_all_subset [OF b] by simp
  have snd: "send_to_client fails B (presenting_allowed True None) s1 = (s1, [(B, presenting_allowed True None)])"
    using k1 sub assms(3) by (intro send_to_client_ok) auto
  from assms(1,4) b snd have "s' = s1" and "sent = sent1 @ [(B, presenting_allowed True None)]"
    by (simp_all add: handle_start_presenting_def)
  with p1 sent1 show ?thesis by simp
qed

lemma handle_stop_presenting_own:
  assumes "current_presenter s = Some A" and "handle_stop_presenting fails A s = (s', sent)"
  shows "current_presenter s' = None \<and> sent = map (\<lambda>u. (u, presenter_stopped A)) (map fst (s_clients s))
       \<and> set (s_clients s') \<subseteq> set (s_clients s)"
proof -
  from assms have b: "broadcast_to_all fails (presenter_stopped A) (s\<lparr>current_presenter := None\<rparr>) = (s', sent)"
    by (simp add: handle_stop_presenting_def)
  show ?thesis
    using broadcast_to_all_presenter [OF b] broadcast_to_all_sent [OF b] broadcast_to_all_subset [OF b]
    by simp
qed

text \<open>
  C4. Let the relay be in state Presenting(A), and let B, distinct from A, be a registered
  client whose socket accepts what is sent to it. Processing \<open>start_presenting\<close> from B
  leaves the presenter A and makes one send, \<open>presenting_allowed{allowed: false,
  current_presenter: A}\<close> to B. When A then issues \<open>stop_presenting\<close> the presenter
  becomes empty and \<open>presenter_stopped{A}\<close> is sent to every registered client. A
  following \<open>start_presenting\<close> from B makes B the presenter, sends
  \<open>presenter_started{B}\<close> to every registered client and then
  \<open>presenting_allowed{allowed: true}\<close> to B.
\<close>

theorem presenter_handover:
  assumes "current_presenter s = Some A" and "B \<noteq> A" and "has_key (s_clients s) B"
    and ok: "\<And>sock m. (B, sock) \<in> set (s_clients s) \<Longrightarrow> \<not> f1 sock m \<and> \<not> f2 sock m \<and> \<not> f3 sock m"
    and 1: "handle_start_presenting f1 B s = (s1, sent1)"
    and 2: "handle_stop_presenting f2 A s1 = (s2, sent2)"
    and 3: "handle_start_presenting f3 B s2 = (s3, sent3)"
  shows "current_presenter s1 = Some A
       \<and> sent1 = [(B, presenting_allowed False (Some A))]
       \<and> current_presenter s2 = None
       \<and> sent2 = map (\<lambda>u. (u, presenter_stopped A)) (map fst (s_clients s1))
       \<and> current_presenter s3 = Some B
       \<and> sent3 = map (\<lambda>u. (u, presenter_started B)) (map fst (s_clients s2))
                 @ [(B, presenting_allowed True None)]"
proof -
  have "handle_start_presenting f1 B s = (s, [(B, presenting_allowed False (Some A))])"
    using assms(1,3) ok by (intro handle_start_presenting_busy) auto
  with 1 have s1: "s1 = s" and sent1: "sent1 = [(B, presenting_allowed False (Some A))]"
    by simp_all
  have stop: "current_presenter s2 = None \<and> sent2 = map (\<lambda>u. (u, presenter_stopped A)) (map fst (s_clients s1))
       \<and> set (s_clients s2) \<subseteq> set (s_clients s1)"
    using handle_stop_presenting_own [of s1 A f2 s2 sent2] assms(1) 2 s1 by simp
  have b2: "broadcast_to_all f2 (presenter_stopped A) (s\<lparr>current_presenter := None\<rparr>) = (s2, sent2)"
    using 2 assms(1) s1 by (simp add: handle_stop_presenting_def)
  have k2: "has_key (s_clients s2) B"
    using broadcast_to_all_keeps [OF b2] assms(3) ok by simp
  have "current_presenter s3 = Some B
       \<and> sent3 = map (\<lambda>u. (u, presenter_started B)) (map fst (s_clients s2)) @ [(B, presenting_allowed True None)]"
    using stop k2 ok 3 s1 by (intro handle_start_presenting_idle [where fails = f3]) auto
  with s1 sent1 stop assms(1) show ?thesis by simp
qed

theorem presenter_handover_witness:
  "current_presenter \<lparr>s_clients = [(''alice'', 1), (''bob'', 2), (''carol'', 3)],
        s_client_threads = [(''alice'', 1), (''bob'', 2), (''carol'', 3)],
        current_presenter = Some ''alice''\<rparr> = Some ''alice''
   \<and> ''bob'' \<noteq> ''alice''
   \<and> has_key [(''alice'', 1::nat), (''bob'', 2), (''carol'', 3)] ''bob''
   \<and> handle_start_presenting (\<lambda>sock m. sock = 3) ''bob''
         \<lparr>s_clients = [(''alice'', 1), (''bob'', 2), (''carol'', 3)],
          s_client_threads = [(''alice'', 1), (''bob'', 2), (''carol'', 3)],
          current_presenter = Some ''alice''\<rparr>
       = (\<lparr>s_clients = [(''alice'', 1), (''bob'', 2), (''carol'', 3)],
           s_client_threads = [(''alice'', 1), (''bob'', 2), (''carol'', 3)],
           current_presenter = Some ''alice''\<rparr>,
          [(''bob'', presenting_allowed False (Some ''alice''))])
   \<and> handle_stop_presenting (\<lambda>sock m. sock = 3) ''alice''
         \<lparr>s_clients = [(''alice'', 1), (''bob'', 2), (''carol'', 3)],
          s_client_threads = [(''alice'', 1), (''bob'', 2), (''carol'', 3)],
          current_presenter = Some ''alice''\<rparr>
       = (\<lparr>s_clients = [(''alice'', 1), (''bob'', 2)],
           s_client_threads = [(''alice'', 1), (''bob'', 2)],
           current_presenter = None\<rparr>,
          [(''alice'', presenter_stopped ''alice''), (''bob'', presenter_stopped ''alice''),
           (''carol'', presenter_stopped ''alice'')])
   \<and> handle_start_presenting (\<lambda>sock m. sock = 3) ''bob''
         \<lparr>s_clients = [(''alice'', 1), (''bob'', 2)],
          s_client_threads = [(''alice'', 1), (''bob'', 2)],
          current_presenter = None\<rparr>
       = (\<lparr>s_clients = [(''alice'', 1), (''bob'', 2)],
           s_client_threads = [(''alice'', 1), (''bob'', 2)],
           current_presenter = Some ''bob''\<rparr>,
          [(''alice'', presenter_started ''bob''), (''bob'', presenter_started ''bob''),
           (''bob'', presenting_allowed True None)])"
proof -
  let ?s = "\<lparr>s_clients = [(''alice'', 1), (''bob'', 2), (''carol'', 3)],
        s_client_threads = [(''alice'', 1), (''bob'', 2), (''carol'', 3)],
        current_presenter = Some ''alice''\<rparr>"
  let ?s2 = "\<lparr>s_clients = [(''alice'', 1), (''bob'', 2)],
        s_client_threads = [(''alice'', 1), (''bob'', 2)], current_presenter = None\<rparr>"
  let ?s3 = "\<lparr>s_clients = [(''alice'', 1), (''bob'', 2)],
        s_client_threads = [(''alice'', 1), (''bob'', 2)], current_presenter = Some ''bob''\<rparr>"
  let ?f = "\<lambda>(sock::nat) (m::screen_message). sock = 3"
  have p: "current_presenter ?s = Some ''alice''" and ne: "''bob'' \<noteq> ''alice''"
    and k: "has_key (s_clients ?s) ''bob''"
    by (simp_all add: has_key_def)
  have ok: "\<And>sock m. (''bob'', sock) \<in> set (s_clients ?s) \<Longrightarrow> \<not> ?f sock m \<and> \<not> ?f sock m \<and> \<not> ?f sock m"
    by auto
  have 1: "handle_start_presenting ?f ''bob'' ?s = (?s, [(''bob'', presenting_allowed False (Some ''alice''))])"
    by (simp add: handle_start_presenting_def send_to_client_def)
  have 2: "handle_stop_presenting ?f ''alice'' ?s
       = (?s2, [(''alice'', presenter_stopped ''alice''), (''bob'', presenter_stopped ''alice''),
           (''carol'', presenter_stopped ''alice'')])"
    by (simp add: handle_stop_presenting_def broadcast_to_all_def remove_client_def Let_def)
  have 3: "handle_start_presenting ?f ''bob'' ?s2
       = (?s3, [(''alice'', presenter_started ''bob''), (''bob'', presenter_started ''bob''),
           (''bob'', presenting_allowed True None)])"
    by (simp add: handle_start_presenting_def broadcast_to_all_def send_to_client_def Let_def)
  note presenter_handover [OF p ne k ok 1 2 3]
  with p ne k 1 2 3 show ?thesis by auto
qed

text \<open>
  C1. The claim is that after every operation, a failed send included, the presenter is
  empty or a key of the client registry. The code does not keep this: with alice the only
  client and nobody presenting, \<open>start_presenting\<close> from alice makes her the presenter,
  the broadcast of \<open>presenter_started\<close> fails on her socket, \<open>_remove_client\<close> drops her
  from the registry and leaves \<open>current_presenter\<close> as it is.
\<close>

theorem presenter_not_cleared_on_failed_send:
  "presenter_registered \<lparr>s_clients = [(''alice'', 1)], s_client_threads = [(''alice'', 1)],
        current_presenter = None\<rparr>
   \<and> handle_start_presenting (\<lambda>sock m. True) ''alice''
        \<lparr>s_clients = [(''alice'', 1)], s_client_threads = [(''alice'', 1)], current_presenter = None\<rparr>
      = (\<lparr>s_clients = [], s_client_threads = [], current_presenter = Some ''alice''\<rparr>,
         [(''alice'', presenter_started ''alice'')])
   \<and> \<not> presenter_registered
         \<lparr>s_clients = [], s_client_threads = [], current_presenter = Some ''alice''\<rparr>"
  by (simp add: presenter_registered_def handle_start_presenting_def broadcast_to_all_def
      send_to_client_def remove_client_def has_key_def Let_def)

section \<open>The roster on connect and disconnect\<close>

lemma fold_drop_connection_participants:
  "set (participants (fold drop_connection ds s)) \<subseteq> set (participants s)"
proof (induction ds arbitrary: s)
  case Nil
  show ?case by simp
next
  case (Cons d ds)
  have "set (participants (drop_connection d s)) \<subseteq> set (participants s)"
    by (auto simp: drop_connection_def AList.delete_eq)
  with Cons [of "drop_connection d s"] show ?case by auto
qed

lemma broadcast_participant_update_sent:
  "snd (broadcast_participant_update fails s)
     = map (\<lambda>c. (c, participant_list (participants s))) (map fst (p_clients s))"
  by (simp add: broadcast_participant_update_def Let_def case_prod_beta)

lemma broadcast_participant_update_keys:
  "\<not> has_key (participants s) u \<Longrightarrow> \<not> has_key (participants (fst (broadcast_participant_update fails s))) u"
  using fold_drop_connection_participants
  by (fastforce simp: broadcast_participant_update_def Let_def has_key_def)

lemma rosters_broadcast:
  "set (rosters (snd (broadcast_participant_update fails s))) \<subseteq> {participants s}"
  by (auto simp: broadcast_participant_update_sent rosters_def)

text \<open>
  C9. When a participant connects with a username (\<open>dave\<close>, or any other), the roster
  gets the record \<open>{status: online, joined_at: now, video_active: false}\<close> under that
  name, and that roster is sent on the new socket and then on the socket of every
  connected client, the new one included; when no send fails the record is in the
  registry afterwards. When the connection ends, \<open>_remove_participant\<close> leaves a registry
  without a record for the name, the roster it broadcasts does not contain the name, and
  neither does the roster of a broadcast made from the state it leaves.
\<close>

theorem participant_roster_follows_connections:
  "(accept_participant fails now username client_socket s = (s1, sent1) \<longrightarrow>
      map_of (AList.update username \<lparr>status = ''online'', joined_at = now, video_active = False\<rparr> (participants s)) username
        = Some \<lparr>status = ''online'', joined_at = now, video_active = False\<rparr>
      \<and> sent1 = map (\<lambda>c. (c, participant_list
                  (AList.update username \<lparr>status = ''online'', joined_at = now, video_active = False\<rparr> (participants s))))
                 (client_socket # map fst (AList.update client_socket username (p_clients s)))
      \<and> ((\<forall>c. \<not> fails c) \<longrightarrow>
           participants s1 = AList.update username
              \<lparr>status = ''online'', joined_at = now, video_active = False\<rparr> (participants s)))
   \<and> (remove_participant fails username client_socket t = (s2, sent2) \<longrightarrow>
      \<not> has_key (participants s2) username
      \<and> (\<forall>r \<in> set (rosters sent2). \<not> has_key r username)
      \<and> (\<forall>r \<in> set (rosters (snd (broadcast_participant_update fails' s2))). \<not> has_key r username))"
proof (intro conjI impI)
  let ?rec = "\<lparr>status = ''online'', joined_at = now, video_active = False\<rparr>"
  show "map_of (AList.update username ?rec (participants s)) username = Some ?rec"
    by (simp add: AList.update_conv')
  assume a: "accept_participant fails now username client_socket s = (s1, sent1)"
  then show "sent1 = map (\<lambda>c. (c, participant_list (AList.update username ?rec (participants s))))
                 (client_socket # map fst (AList.update client_socket username (p_clients s)))"
    by (auto simp: accept_participant_def Let_def send_participant_list_def
        broadcast_participant_update_def case_prod_beta)
  assume "\<forall>c. \<not> fails c"
  then have nf: "\<And>cs :: (sock \<times> string) list. filter (\<lambda>(c, u). fails c) cs = []"
    by (auto simp: filter_empty_conv)
  from a show "participants s1 = AList.update username ?rec (participants s)"
    by (auto simp: accept_participant_def Let_def broadcast_participant_update_def nf)
next
  assume r: "remove_participant fails username client_socket t = (s2, sent2)"
  let ?s1 = "t\<lparr>p_clients := AList.delete client_socket (p_clients t),
                  participants := AList.delete username (participants t)\<rparr>"
  have gone: "\<not> has_key (participants ?s1) username"
    by (simp add: has_key_def AList.delete_keys)
  from r have s': "s2 = ?s1 \<or> s2 = fst (broadcast_participant_update fails ?s1)"
    and sent: "sent2 = [] \<or> sent2 = snd (broadcast_participant_update fails ?s1)"
    by (auto simp: remove_participant_def Let_def split: if_splits)
  from s' gone show k: "\<not> has_key (participants s2) username"
    using broadcast_participant_update_keys [OF gone] by auto
  from sent gone show "\<forall>r \<in> set (rosters sent2). \<not> has_key r username"
    using rosters_broadcast [of fails ?s1] by (auto simp: rosters_def)
  from k show "\<forall>r \<in> set (rosters (snd (broadcast_participant_update fails' s2))). \<not> has_key r username"
    using rosters_broadcast [of fails' s2] by auto
qed

theorem participant_roster_follows_connections_witness:
  "accept_participant (\<lambda>c. False) ''09:30:00'' ''dave'' 2
      \<lparr>p_clients = [(1, ''carol'')],
       participants = [(''carol'', \<lparr>status = ''away'', joined_at = ''09:00:00'', video_active = True\<rparr>)]\<rparr>
    = (\<lparr>p_clients = [(1, ''carol''), (2, ''dave'')],
        participants = [(''carol'', \<lparr>status = ''away'', joined_at = ''09:00:00'', video_active = True\<rparr>),
                        (''dave'', \<lparr>status = ''online'', joined_at = ''09:30:00'', video_active = False\<rparr>)]\<rparr>,
       map (\<lambda>c. (c, participant_list
           [(''carol'', \<lparr>status = ''away'', joined_at = ''09:00:00'', video_active = True\<rparr>),
            (''dave'', \<lparr>status = ''online'', joined_at = ''09:30:00'', video_active = False\<rparr>)]))
         [2, 1, 2])
   \<and> remove_participant (\<lambda>c. False) ''dave'' 2
      \<lparr>p_clients = [(1, ''carol''), (2, ''dave'')],
       participants = [(''carol'', \<lparr>status = ''away'', joined_at = ''09:00:00'', video_active = True\<rparr>),
                       (''dave'', \<lparr>status = ''online'', joined_at = ''09:30:00'', video_active = False\<rparr>)]\<rparr>
    = (\<lparr>p_clients = [(1, ''carol'')],
        participants = [(''carol'', \<lparr>status = ''away'', joined_at = ''09:00:00'', video_active = True\<rparr>)]\<rparr>,
       [(1, participant_list
           [(''carol'', \<lparr>status = ''away'', joined_at = ''09:00:00'', video_active = True\<rparr>)])])
   \<and> \<not> has_key [(''carol'', \<lparr>status = ''away'', joined_at = ''09:00:00'', video_active = True\<rparr>)] ''dave''"
proof -
  let ?carol = "(''carol'', \<lparr>status = ''away'', joined_at = ''09:00:00'', video_active = True\<rparr>)"
  let ?dave = "(''dave'', \<lparr>status = ''online'', joined_at = ''09:30:00'', video_active = False\<rparr>)"
  let ?s = "\<lparr>p_clients = [(1, ''carol'')], participants = [?carol]\<rparr>"
  let ?t = "\<lparr>p_clients = [(1, ''carol''), (2, ''dave'')], participants = [?carol, ?dave]\<rparr>"
  have a: "accept_participant (\<lambda>c. False) ''09:30:00'' ''dave'' 2 ?s
      = (?t, map (\<lambda>c. (c, participant_list [?carol, ?dave])) [2, 1, 2])"
    by (simp add: accept_participant_def broadcast_participant_update_def send_participant_list_def Let_def)
  have r: "remove_participant (\<lambda>c. False) ''dave'' 2 ?t = (?s, [(1, participant_list [?carol])])"
    by (simp add: remove_participant_def broadcast_participant_update_def has_key_def Let_def)
  from participant_roster_follows_connections
    [of "\<lambda>c. False" "''09:30:00''" "''dave''" 2 ?s ?t "map (\<lambda>c. (c, participant_list [?carol, ?dave])) [2, 1, 2]"
        ?t ?s "[(1, participant_list [?carol])]"] a r
  have "\<not> has_key (participants ?s) ''dave''" by blast
  with a r show ?thesis by simp
qed

section \<open>Uploads\<close>

text \<open>
  C7. An UPLOAD request whose declared \<open>filesize\<close> exceeds \<open>MAX_FILE_SIZE\<close> (500 MiB) is
  answered with an error status; nothing is read from the connection, and the server
  (catalog, stored files, clients) is returned as it was. So a file name that was not in
  the catalog is not in it afterwards, and a LIST answered from the resulting server
  carries the old catalog. The connection stays open: \<open>_handle_client\<close> goes on with the
  rest of the connection exactly as it would from the unchanged server.
\<close>

theorem oversized_upload_rejected:
  assumes "filesize > MAX_FILE_SIZE"
  shows "handle_upload fails client_socket filename filesize username s stream
           = (s, (client_socket, status_error ''File too large'') #
                 (case fails client_socket (status_error ''File too large'') of
                    None \<Rightarrow> [] | Some e \<Rightarrow> [(client_socket, status_error e)]),
              stream)
       \<and> (\<not> has_key (available_files s) filename \<longrightarrow>
            (\<forall>c. send_file_list c
                   (fst (handle_upload fails client_socket filename filesize username s stream))
                 = [(c, file_list (available_files s))])
            \<and> \<not> has_key (available_files
                   (fst (handle_upload fails client_socket filename filesize username s stream)))
                 filename)
       \<and> (recv 1024 stream = (returned data, rest) \<and> data \<noteq> []
            \<and> parse data = Some (UPLOAD filename filesize username) \<longrightarrow>
            handle_client fails parse client_socket s stream
              = (case handle_client fails parse client_socket s rest of
                   (s', sent) \<Rightarrow>
                     (s', ((client_socket, status_error ''File too large'') #
                           (case fails client_socket (status_error ''File too large'') of
                              None \<Rightarrow> [] | Some e \<Rightarrow> [(client_socket, status_error e)])) @ sent)))"
proof -
  let ?reply = "(client_socket, status_error ''File too large'') #
                 (case fails client_socket (status_error ''File too large'') of
                    None \<Rightarrow> [] | Some e \<Rightarrow> [(client_socket, status_error e)])"
  have up: "handle_upload fails client_socket filename filesize username s stream = (s, ?reply, stream)"
    for stream
    using assms by (simp add: handle_upload_def split: option.splits)
  have turn: "handle_client_turn fails parse client_socket s stream = (s, ?reply, Some rest)"
    if "recv 1024 stream = (returned data, rest)" "data \<noteq> []"
       "parse data = Some (UPLOAD filename filesize username)"
    using that up [of rest] by (simp add: handle_client_turn_def)
  show ?thesis
  proof (intro conjI impI allI)
    show "handle_upload fails client_socket filename filesize username s stream = (s, ?reply, stream)"
      by (rule up)
    show "send_file_list c (fst (handle_upload fails client_socket filename filesize username s stream))
            = [(c, file_list (available_files s))]" for c
      by (simp add: up send_file_list_def)
    show "\<not> has_key (available_files
             (fst (handle_upload fails client_socket filename filesize username s stream))) filename"
      if "\<not> has_key (available_files s) filename"
      using that by (simp add: up)
    show "handle_client fails parse client_socket s stream
              = (case handle_client fails parse client_socket s rest of
                   (s', sent) \<Rightarrow> (s', ?reply @ sent))"
      if "recv 1024 stream = (returned data, rest) \<and> data \<noteq> []
            \<and> parse data = Some (UPLOAD filename filesize username)"
      using turn that by (subst handle_client.simps) simp
  qed
qed


theorem oversized_upload_rejected_witness:
  "MAX_FILE_SIZE < 629145600
   \<and> \<not> has_key [(''notes.txt'', \<lparr>file_size = 12, uploader = ''Server''\<rparr>)] ''big.iso''
   \<and> handle_upload (\<lambda>c m. None) 7 ''big.iso'' 629145600 ''dave''
        \<lparr>f_clients = [7, 8],
         available_files = [(''notes.txt'', \<lparr>file_size = 12, uploader = ''Server''\<rparr>)],
         storage = [(''notes.txt'', ''hello, world'')]\<rparr>
        [segment ''L'']
      = (\<lparr>f_clients = [7, 8],
          available_files = [(''notes.txt'', \<lparr>file_size = 12, uploader = ''Server''\<rparr>)],
          storage = [(''notes.txt'', ''hello, world'')]\<rparr>,
         [(7, status_error ''File too large'')], [segment ''L''])
   \<and> handle_client (\<lambda>c m. None)
        (\<lambda>d. if d = ''U'' then Some (UPLOAD ''big.iso'' 629145600 ''dave'')
              else if d = ''L'' then Some LIST else None) 7
        \<lparr>f_clients = [7, 8],
         available_files = [(''notes.txt'', \<lparr>file_size = 12, uploader = ''Server''\<rparr>)],
         storage = [(''notes.txt'', ''hello, world'')]\<rparr>
        [segment ''U'', segment ''L'']
      = (\<lparr>f_clients = [8],
          available_files = [(''notes.txt'', \<lparr>file_size = 12, uploader = ''Server''\<rparr>)],
          storage = [(''notes.txt'', ''hello, world'')]\<rparr>,
         [(7, status_error ''File too large''),
          (7, file_list [(''notes.txt'', \<lparr>file_size = 12, uploader = ''Server''\<rparr>)])])"
proof -
  let ?s = "\<lparr>f_clients = [7, 8],
         available_files = [(''notes.txt'', \<lparr>file_size = 12, uploader = ''Server''\<rparr>)],
         storage = [(''notes.txt'', ''hello, world'')]\<rparr>"
  let ?parse = "\<lambda>d. if d = ''U'' then Some (UPLOAD ''big.iso'' 629145600 ''dave'')
              else if d = ''L'' then Some LIST else None"
  let ?fails = "\<lambda>(c::sock) (m::file_message). None :: string option"
  have big: "MAX_FILE_SIZE < 629145600"
    by (simp add: MAX_FILE_SIZE_def)
  have new: "\<not> has_key (available_files ?s) ''big.iso''"
    by (simp add: has_key_def)
  have r: "recv 1024 [segment ''U'', segment ''L''] = (returned ''U'', [segment ''L''])
           \<and> ''U'' \<noteq> [] \<and> ?parse ''U'' = Some (UPLOAD ''big.iso'' 629145600 ''dave'')"
    by simp
  have t2: "handle_client_turn ?fails ?parse 7 ?s [] = (?s\<lparr>f_clients := [8]\<rparr>, [], None)"
    by (simp add: handle_client_turn_def connection_closed_def)
  have h2: "handle_client ?fails ?parse 7 ?s [] = (?s\<lparr>f_clients := [8]\<rparr>, [])"
    by (subst handle_client.simps) (simp add: t2)
  have t1: "handle_client_turn ?fails ?parse 7 ?s [segment ''L'']
      = (?s, [(7, file_list (available_files ?s))], Some [])"
    by (simp add: handle_client_turn_def send_file_list_def)
  have rest: "handle_client ?fails ?parse 7 ?s [segment ''L'']
      = (?s\<lparr>f_clients := [8]\<rparr>, [(7, file_list (available_files ?s))])"
    by (subst handle_client.simps) (simp add: t1 h2)
  note t = oversized_upload_rejected [OF big, of ?fails 7 "''big.iso''" "''dave''" ?s]
  from t [of "[segment ''L'']"] have 1:
    "handle_upload ?fails 7 ''big.iso'' 629145600 ''dave'' ?s [segment ''L'']
       = (?s, [(7, status_error ''File too large'')], [segment ''L''])"
    by simp
  from t [of "[segment ''U'', segment ''L'']" "''U''" "[segment ''L'']" ?parse] r rest have 2:
    "handle_client ?fails ?parse 7 ?s [segment ''U'', segment ''L'']
       = (?s\<lparr>f_clients := [8]\<rparr>,
          [(7, status_error ''File too large''), (7, file_list (available_files ?s))])"
    by simp
  from big new 1 2 show ?thesis by simp
qed


text \<open>
  C2. The claim is that an upload whose client closes the connection before \<open>filesize\<close>
  bytes have arrived leaves the catalog unchanged. The code does not check how many
  bytes it received: for a declared size of 10 and a client that sends 3 bytes and
  closes, the loop ends with 3 bytes read, the file holds 3 bytes, the catalog gets the
  entry with size 10, the client is told of success and the new catalog is broadcast.
\<close>

theorem partial_upload_is_catalogued:
  "receive_file 10 0 [] [segment ''abc''] = (None, 3, ''abc'', [])
   \<and> handle_upload (\<lambda>c m. None) 7 ''a.bin'' 10 ''alice''
        \<lparr>f_clients = [7, 8], available_files = [], storage = []\<rparr> [segment ''abc'']
      = (\<lparr>f_clients = [7, 8],
          available_files = [(''a.bin'', \<lparr>file_size = 10, uploader = ''alice''\<rparr>)],
          storage = [(''a.bin'', ''abc'')]\<rparr>,
         [(7, status_ready), (7, status_success ''File uploaded successfully''),
          (7, file_list_update [(''a.bin'', \<lparr>file_size = 10, uploader = ''alice''\<rparr>)]),
          (8, file_list_update [(''a.bin'', \<lparr>file_size = 10, uploader = ''alice''\<rparr>)])],
         [])"
proof -
  have r: "receive_file 10 0 [] [segment ''abc''] = (None, 3, ''abc'', [])"
    by (simp add: receive_file.simps CHUNK_SIZE_def)
  then show ?thesis
    by (simp add: handle_upload_def MAX_FILE_SIZE_def broadcast_file_list_def Let_def)
qed

section \<open>Startup and rollback\<close>

lemma stop_each_props:
  "stop_each ms s = (s', events) \<Longrightarrow>
     filter is_call events = map (stop_called \<circ> fst) ms
     \<and> set (modules_running s') = set (modules_running s) - fst ` set ms
     \<and> running s' = running s \<and> active_modules s' = active_modules s \<and> modules s' = modules s
     \<and> (\<forall>n. map_of (module_states s') n
            = (if n \<in> fst ` set ms then Some ''stopped'' else map_of (module_states s) n))"
proof (induction ms arbitrary: s s' events)
  case Nil
  then show ?case by simp
next
  case (Cons m ms)
  obtain name server where m: "m = (name, server)" by (cases m)
  let ?s3 = "set_status name ''stopped''
               ((set_status name ''stopping'' s)\<lparr>modules_running :=
                   removeAll name (modules_running (set_status name ''stopping'' s))\<rparr>)"
  obtain s4 ev where r: "stop_each ms ?s3 = (s4, ev)" by force
  from Cons.prems m r have s': "s' = s4"
    and ev: "events = [update_status name ''stopping'', stop_called name, update_status name ''stopped''] @ ev"
    by (simp_all add: Let_def)
  note ih = Cons.IH [OF r]
  have "set (modules_running s') = set (modules_running s) - fst ` set (m # ms)"
    using ih s' m by (auto simp: set_status_def)
  moreover have "\<forall>n. map_of (module_states s') n
            = (if n \<in> fst ` set (m # ms) then Some ''stopped'' else map_of (module_states s) n)"
    using ih s' m by (auto simp: set_status_def AList.update_conv')
  moreover have "filter is_call events = map (stop_called \<circ> fst) (m # ms)"
    using ih ev m by simp
  moreover have "running s' = running s \<and> active_modules s' = active_modules s \<and> modules s' = modules s"
    using ih s' by (simp add: set_status_def)
  ultimately show ?case by blast
qed

lemma start_each_succeeding:
  "\<forall>m \<in> set pre. \<not> start_fails (snd m) \<Longrightarrow>
     \<exists>s1 ev1. (\<forall>rest'. start_each (pre @ rest') started s =
                   (case start_each rest' (started @ pre) s1 of
                      (exc, started', s2, ev2) \<Rightarrow> (exc, started', s2, ev1 @ ev2)))
       \<and> filter is_call ev1 = map (start_called \<circ> fst) pre
       \<and> set (modules_running s1) = set (modules_running s) \<union> fst ` set pre
       \<and> running s1 = running s \<and> active_modules s1 = active_modules s \<and> modules s1 = modules s"
proof (induction pre arbitrary: started s)
  case Nil
  show ?case by (rule exI [of _ s], rule exI [of _ "[]"]) simp
next
  case (Cons m pre)
  obtain name server where m: "m = (name, server)" by (cases m)
  let ?s3 = "set_status name ''running''
               ((set_status name ''starting'' s)\<lparr>modules_running :=
                   modules_running (set_status name ''starting'' s) @ [name]\<rparr>)"
  from Cons.prems have pre: "\<forall>m \<in> set pre. \<not> start_fails (snd m)" by simp
  from Cons.IH [OF pre, of "started @ [m]" ?s3] obtain s1 ev1 where
    eq: "\<And>rest'. start_each (pre @ rest') (started @ [m]) ?s3 =
           (case start_each rest' ((started @ [m]) @ pre) s1 of
              (exc, started', s2, ev2) \<Rightarrow> (exc, started', s2, ev1 @ ev2))"
    and calls: "filter is_call ev1 = map (start_called \<circ> fst) pre"
    and live: "set (modules_running s1) = set (modules_running ?s3) \<union> fst ` set pre"
    and same: "running s1 = running ?s3 \<and> active_modules s1 = active_modules ?s3 \<and> modules s1 = modules ?s3"
    by blast
  let ?ev = "[update_status name ''starting'', start_called name, update_status name ''running''] @ ev1"
  from Cons.prems m have ok: "\<not> start_fails server" by simp
  have "\<forall>rest'. start_each ((m # pre) @ rest') started s =
          (case start_each rest' (started @ m # pre) s1 of
             (exc, started', s2, ev2) \<Rightarrow> (exc, started', s2, ?ev @ ev2))"
    using ok m eq
    by (cases server) (simp_all add: start_fails_def Let_def split: prod.splits)
  moreover have "filter is_call ?ev = map (start_called \<circ> fst) (m # pre)"
    using calls m by simp
  moreover have "set (modules_running s1) = set (modules_running s) \<union> fst ` set (m # pre)"
    using live m by (auto simp: set_status_def)
  moreover have "running s1 = running s \<and> active_modules s1 = active_modules s \<and> modules s1 = modules s"
    using same by (simp add: set_status_def)
  ultimately show ?case by blast
qed

lemma start_each_failing:
  "start_fails (snd failing) \<Longrightarrow>
     start_each (failing # post) started s
       = (Some (failure_of failing, fst failing), started, set_status (fst failing) ''starting'' s,
          [update_status (fst failing) ''starting'', start_called (fst failing)])"
  by (cases failing; cases "snd failing")
     (simp_all add: start_fails_def failure_of_def Let_def)

text \<open>
  C8. Take a run of \<open>start_modules\<close> on an orchestrator that is not running, in which some
  module's \<open>start()\<close> fails (raises, or returns \<open>False\<close>) after the modules before it have
  started. Then the calls made are: \<open>start\<close> of every module up to the failing one, in
  order, and then \<open>stop\<close> of every module started before it, in reverse order. The
  failure is raised to the caller (for \<open>False\<close>, as the error "<name> reported startup
  failure"), the orchestrator ends not running with no active module, every module that
  had been started has its own running flag cleared and the status \<open>stopped\<close>.
\<close>

theorem startup_rollback:
  assumes "\<not> running s"
    and "modules s = pre @ failing # post"
    and "\<forall>m \<in> set pre. \<not> start_fails (snd m)"
    and "start_fails (snd failing)"
    and "start_modules s = (s', events, result)"
  shows "filter is_call events
           = map (start_called \<circ> fst) (pre @ [failing]) @ map (stop_called \<circ> fst) (rev pre)
       \<and> result = raised_error (failure_of failing)
       \<and> \<not> running s' \<and> active_modules s' = []
       \<and> set (modules_running s') = set (modules_running s) - fst ` set pre
       \<and> (\<forall>m \<in> set pre. map_of (module_states s') (fst m) = Some ''stopped'')"
proof -
  from start_each_succeeding [OF assms(3), of "[]" s] obtain s1 ev1 where
    eq: "\<And>rest'. start_each (pre @ rest') [] s =
           (case start_each rest' pre s1 of
              (exc, started', s2, ev2) \<Rightarrow> (exc, started', s2, ev1 @ ev2))"
    and calls: "filter is_call ev1 = map (start_called \<circ> fst) pre"
    and live: "set (modules_running s1) = set (modules_running s) \<union> fst ` set pre"
    by auto
  let ?name = "fst failing"
  let ?s2 = "set_status ?name ''error'' (set_status ?name ''starting'' s1)"
  let ?ev = "ev1 @ [update_status ?name ''starting'', start_called ?name]"
  have loop: "start_each (modules s) [] s
                = (Some (failure_of failing, ?name), pre, set_status ?name ''starting'' s1, ?ev)"
    using eq [of "failing # post"] assms(2) start_each_failing [OF assms(4), of post pre s1]
    by simp
  obtain s3 stops where stop: "stop_each (rev pre) ?s2 = (s3, stops)" by force
  note sp = stop_each_props [OF stop]
  have res: "s' = s3\<lparr>active_modules := [], running := False\<rparr>
           \<and> events = ?ev @ [update_status ?name ''error''] @ stops
           \<and> result = raised_error (failure_of failing)"
  proof (cases "pre = []")
    case True
    with stop have "s3 = ?s2" "stops = []" by simp_all
    with True assms(1,5) loop show ?thesis
      by (simp add: start_modules_def Let_def)
  next
    case False
    with assms(1,5) loop stop show ?thesis
      by (simp add: start_modules_def Let_def stop_modules_list_def)
  qed
  have "filter is_call events
           = map (start_called \<circ> fst) (pre @ [failing]) @ map (stop_called \<circ> fst) (rev pre)"
    using res calls sp by simp
  moreover have "set (modules_running s') = set (modules_running s) - fst ` set pre"
    using res sp live by (auto simp: set_status_def)
  moreover have "\<forall>m \<in> set pre. map_of (module_states s') (fst m) = Some ''stopped''"
    using res sp by auto
  ultimately show ?thesis using res by simp
qed

theorem startup_rollback_witness:
  "start_fails (start_raises ''Address already in use'')
   \<and> \<not> start_fails returns_None
   \<and> start_modules
        \<lparr>modules = [(''Chat Service'', returns_None), (''File Transfer Service'', returns_None),
                    (''Video Service'', returns_None),
                    (''Audio Service'', start_raises ''Address already in use''),
                    (''Screen Share Service'', returns_True), (''Participant Service'', returns_True)],
         module_states = [(''Chat Service'', ''stopped''), (''File Transfer Service'', ''stopped''),
                    (''Video Service'', ''stopped''), (''Audio Service'', ''stopped''),
                    (''Screen Share Service'', ''stopped''), (''Participant Service'', ''stopped'')],
         active_modules = [], running = False, modules_running = []\<rparr>
     = (\<lparr>modules = [(''Chat Service'', returns_None), (''File Transfer Service'', returns_None),
                    (''Video Service'', returns_None),
                    (''Audio Service'', start_raises ''Address already in use''),
                    (''Screen Share Service'', returns_True), (''Participant Service'', returns_True)],
         module_states = [(''Chat Service'', ''stopped''), (''File Transfer Service'', ''stopped''),
                    (''Video Service'', ''stopped''), (''Audio Service'', ''error''),
                    (''Screen Share Service'', ''stopped''), (''Participant Service'', ''stopped'')],
         active_modules = [], running = False, modules_running = []\<rparr>,
        [update_status ''Chat Service'' ''starting'', start_called ''Chat Service'',
         update_status ''Chat Service'' ''running'',
         update_status ''File Transfer Service'' ''starting'', start_called ''File Transfer Service'',
         update_status ''File Transfer Service'' ''running'',
         update_status ''Video Service'' ''starting'', start_called ''Video Service'',
         update_status ''Video Service'' ''running'',
         update_status ''Audio Service'' ''starting'', start_called ''Audio Service'',
         update_status ''Audio Service'' ''error'',
         update_status ''Video Service'' ''stopping'', stop_called ''Video Service'',
         update_status ''Video Service'' ''stopped'',
         update_status ''File Transfer Service'' ''stopping'', stop_called ''File Transfer Service'',
         update_status ''File Transfer Service'' ''stopped'',
         update_status ''Chat Service'' ''stopping'', stop_called ''Chat Service'',
         update_status ''Chat Service'' ''stopped''],
        raised_error ''Address already in use'')"
proof -
  let ?pre = "[(''Chat Service'', returns_None), (''File Transfer Service'', returns_None),
               (''Video Service'', returns_None)]"
  let ?failing = "(''Audio Service'', start_raises ''Address already in use'')"
  let ?post = "[(''Screen Share Service'', returns_True), (''Participant Service'', returns_True)]"
  let ?states = "[(''Chat Service'', ''stopped''), (''File Transfer Service'', ''stopped''),
                    (''Video Service'', ''stopped''), (''Audio Service'', ''stopped''),
                    (''Screen Share Service'', ''stopped''), (''Participant Service'', ''stopped'')]"
  let ?s = "\<lparr>modules = ?pre @ ?failing # ?post, module_states = ?states,
             active_modules = [], running = False, modules_running = []\<rparr>"
  let ?s' = "\<lparr>modules = ?pre @ ?failing # ?post,
         module_states = [(''Chat Service'', ''stopped''), (''File Transfer Service'', ''stopped''),
                    (''Video Service'', ''stopped''), (''Audio Service'', ''error''),
                    (''Screen Share Service'', ''stopped''), (''Participant Service'', ''stopped'')],
         active_modules = [], running = False, modules_running = []\<rparr>"
  let ?events = "[update_status ''Chat Service'' ''starting'', start_called ''Chat Service'',
         update_status ''Chat Service'' ''running'',
         update_status ''File Transfer Service'' ''starting'', start_called ''File Transfer Service'',
         update_status ''File Transfer Service'' ''running'',
         update_status ''Video Service'' ''starting'', start_called ''Video Service'',
         update_status ''Video Service'' ''running'',
         update_status ''Audio Service'' ''starting'', start_called ''Audio Service'',
         update_status ''Audio Service'' ''error'',
         update_status ''Video Service'' ''stopping'', stop_called ''Video Service'',
         update_status ''Video Service'' ''stopped'',
         update_status ''File Transfer Service'' ''stopping'', stop_called ''File Transfer Service'',
         update_status ''File Transfer Service'' ''stopped'',
         update_status ''Chat Service'' ''stopping'', stop_called ''Chat Service'',
         update_status ''Chat Service'' ''stopped'']"
  have f: "start_fails (snd ?failing)" and ok: "\<forall>m \<in> set ?pre. \<not> start_fails (snd m)"
    by (simp_all add: start_fails_def)
  have nr: "\<not> running ?s" and ms: "modules ?s = ?pre @ ?failing # ?post"
    by simp_all
  have run: "start_modules ?s = (?s', ?events, raised_error ''Address already in use'')"
    by (simp add: start_modules_def stop_modules_list_def set_status_def Let_def)
  from startup_rollback [OF nr ms ok f run]
  have "result = raised_error (failure_of ?failing)" if "result = raised_error ''Address already in use''"
    for result using that by simp
  with f ok run show ?thesis by simp
qed

section \<open>Video frames: chunks and reassembly\<close>

subsection \<open>Chunks\<close>





lemma length_frame_chunk: "length (frame_chunk frame_bytes i) \<le> MAX_DATAGRAM_SIZE"
  by (simp add: frame_chunk_def)

subsection \<open>Numbers in headers\<close>










subsection \<open>Reading a packet back\<close>






subsection \<open>The buffer of one frame\<close>




subsection \<open>Sending\<close>


subsection \<open>A frame through sender and receiver\<close>





section \<open>Expiry of incomplete frames\<close>








section \<open>The mix for a listener\<close>

lemma length_frombuffer_int16: "length (frombuffer_int16 b) = length b div 2"
  by (induction b rule: frombuffer_int16.induct) simp_all

lemma Min_lengths_positive:
  assumes "chunks \<noteq> []" and "\<forall>c \<in> set chunks. 2 \<le> length c"
  shows "0 < Min (set (map length (map frombuffer_int16 chunks)))"
proof -
  have "\<forall>n \<in> set (map length (map frombuffer_int16 chunks)). 0 < n"
    using assms(2) by (auto simp: length_frombuffer_int16)
  moreover have "set (map length (map frombuffer_int16 chunks)) \<noteq> {}"
    using assms(1) by simp
  ultimately show ?thesis by (simp add: Min_gr_iff del: set_map)
qed

text \<open>
  C5, as the code has it. The chunks that contribute to a listener's mix are the other
  senders' latest chunks of at least two bytes and of even length; a non-empty chunk that
  is shorter or of odd length is skipped and not counted. When there is none, no mix is
  built. Otherwise the mix is the downmix of those chunks: each decoded as 16-bit PCM, all
  truncated to the shortest common length, summed in float32, divided by the number of
  contributing chunks, put through \<open>tanh(x / 32768) * 32767\<close>, clipped to the 16-bit range,
  cast to int16 and encoded. The float32 operations are numpy's, taken as they are.
\<close>

theorem mix_is_downmix_of_decodable_chunks:
  "build_mix_for_target ops s listener
     = (if filter decodable (contributing_chunks s listener) = [] then None
        else Some (reference_downmix ops (filter decodable (contributing_chunks s listener))))"
proof -
  let ?chunks = "filter decodable (contributing_chunks s listener)"
  have valid: "filter (\<lambda>chunk. \<not> length chunk < 2 \<and> even (length chunk))
                 (contributing_chunks s listener) = ?chunks"
    by (simp add: decodable_def [abs_def] not_less)
  show ?thesis
  proof (cases "?chunks = []")
  case True
  then show ?thesis
    unfolding build_mix_for_target_def contributing_chunks_def [symmetric]
    by (simp add: Let_def valid)
next
  case False
  from False have ne: "contributing_chunks s listener \<noteq> []" by auto
  have pos: "0 < Min (set (map length (map frombuffer_int16 ?chunks)))"
    using False by (intro Min_lengths_positive) (auto simp: decodable_def)
  from False have n: "max (length ?chunks) 1 = length ?chunks"
    by (cases ?chunks) simp_all
  have "build_mix_for_target ops s listener = Some (reference_downmix ops ?chunks)"
    using ne False pos n
    unfolding build_mix_for_target_def reference_downmix_def contributing_chunks_def [symmetric]
    by (simp add: Let_def valid comp_def image_image)
  with False show ?thesis by simp
qed
qed

text \<open>
  C5, as stated: whenever some other sender's latest chunk is non-empty and of even
  length, the mix is the downmix of every other sender's latest non-empty chunk. It fails
  when another chunk is too short to decode: with the chunks \<open>ab\<close> (one sample) and \<open>c\<close>
  (one byte, no sample) the downmix of both has the shortest common length 0 and is empty,
  while the code skips \<open>c\<close>, mixes \<open>ab\<close> alone and divides by 1. This holds whatever the
  float32 operations are.
\<close>

theorem mix_skips_undecodable_chunk:
  "\<forall>ops :: 'f float32_ops.
     decodable ''ab''
     \<and> contributing_chunks
          \<lparr>a_clients = [((''10.0.0.1'', 4001), ''lea''), ((''10.0.0.2'', 4002), ''xan''),
                        ((''10.0.0.3'', 4003), ''yul'')],
           a_last_seen = [((''10.0.0.1'', 4001), 0), ((''10.0.0.2'', 4002), 0),
                          ((''10.0.0.3'', 4003), 0)],
           a_latest_chunks = [((''10.0.0.1'', 4001), []), ((''10.0.0.2'', 4002), ''ab''),
                              ((''10.0.0.3'', 4003), ''c'')]\<rparr>
          (''10.0.0.1'', 4001) = [''ab'', ''c'']
     \<and> reference_downmix ops [''ab'', ''c''] = []
     \<and> build_mix_for_target ops
          \<lparr>a_clients = [((''10.0.0.1'', 4001), ''lea''), ((''10.0.0.2'', 4002), ''xan''),
                        ((''10.0.0.3'', 4003), ''yul'')],
           a_last_seen = [((''10.0.0.1'', 4001), 0), ((''10.0.0.2'', 4002), 0),
                          ((''10.0.0.3'', 4003), 0)],
           a_latest_chunks = [((''10.0.0.1'', 4001), []), ((''10.0.0.2'', 4002), ''ab''),
                              ((''10.0.0.3'', 4003), ''c'')]\<rparr>
          (''10.0.0.1'', 4001)
        \<noteq> Some (reference_downmix ops [''ab'', ''c''])"
  by (simp add: decodable_def contributing_chunks_def reference_downmix_def
      build_mix_for_target_def tobytes_int16_def Let_def)

theorem mix_is_downmix_of_decodable_chunks_witness:
  "filter decodable (contributing_chunks
       \<lparr>a_clients = [((''10.0.0.1'', 4001), ''lea''), ((''10.0.0.2'', 4002), ''xan''),
                     ((''10.0.0.3'', 4003), ''yul'')],
        a_last_seen = [((''10.0.0.1'', 4001), 0), ((''10.0.0.2'', 4002), 0),
                       ((''10.0.0.3'', 4003), 0)],
        a_latest_chunks = [((''10.0.0.1'', 4001), []), ((''10.0.0.2'', 4002), ''ab''),
                           ((''10.0.0.3'', 4003), ''c'')]\<rparr>
       (''10.0.0.1'', 4001)) = [''ab'']
   \<and> build_mix_for_target
        \<lparr>sum_f32 = \<lambda>c. sum_list (map sint c), div_f32 = \<lambda>x c. x, mul_f32 = \<lambda>x c. x,
         tanh_f32 = \<lambda>x. x, clip_f32 = \<lambda>x lo hi. x, astype_int16 = word_of_int\<rparr>
        \<lparr>a_clients = [((''10.0.0.1'', 4001), ''lea''), ((''10.0.0.2'', 4002), ''xan''),
                      ((''10.0.0.3'', 4003), ''yul'')],
         a_last_seen = [((''10.0.0.1'', 4001), 0), ((''10.0.0.2'', 4002), 0),
                        ((''10.0.0.3'', 4003), 0)],
         a_latest_chunks = [((''10.0.0.1'', 4001), []), ((''10.0.0.2'', 4002), ''ab''),
                            ((''10.0.0.3'', 4003), ''c'')]\<rparr>
        (''10.0.0.1'', 4001)
      = Some (reference_downmix
          \<lparr>sum_f32 = \<lambda>c. sum_list (map sint c), div_f32 = \<lambda>x c. x, mul_f32 = \<lambda>x c. x,
           tanh_f32 = \<lambda>x. x, clip_f32 = \<lambda>x lo hi. x, astype_int16 = word_of_int\<rparr>
          [''ab''])"
proof -
  let ?s = "\<lparr>a_clients = [((''10.0.0.1'', 4001), ''lea''), ((''10.0.0.2'', 4002), ''xan''),
                      ((''10.0.0.3'', 4003), ''yul'')],
         a_last_seen = [((''10.0.0.1'', 4001), 0), ((''10.0.0.2'', 4002), 0),
                        ((''10.0.0.3'', 4003), 0)],
         a_latest_chunks = [((''10.0.0.1'', 4001), []), ((''10.0.0.2'', 4002), ''ab''),
                            ((''10.0.0.3'', 4003), ''c'')]\<rparr>"
  have c: "filter decodable (contributing_chunks ?s (''10.0.0.1'', 4001)) = [''ab'']"
    by (simp add: decodable_def contributing_chunks_def)
  show ?thesis
    using c mix_is_downmix_of_decodable_chunks [of _ ?s "(''10.0.0.1'', 4001)"]
    by simp
qed

end
